theory Spec2Isabelle
  imports Main "HOL-Library.Word"
begin

unbundle bit_operations_syntax

section \<open>Platform, memory and the array descriptor of npio.h\<close>

text \<open>
  The header \<^verbatim>\<open>npio.h\<close> reads and writes numpy files. Its functions work on raw
  \<^verbatim>\<open>char\<close> pointers, return an \<^verbatim>\<open>int\<close> error code and update an
  \<^verbatim>\<open>npio_Array\<close> in place. The embedding keeps that shape: a pointer is an
  address (a natural number), memory is a partial map from addresses to bytes, a function
  returns its return code together with the updated descriptor, and the result is
  \<open>None\<close> where the C program has no defined behaviour (a read outside every mapped
  object, a null dereference, a write behind an allocated block). A C name that ends in
  an underscore loses it (\<open>npio_ph_skip_spaces\<close> is \<^verbatim>\<open>npio_ph_skip_spaces_\<close>).

  What C leaves to the implementation is a parameter of the model, collected in the
  record \<open>platform\<close>: whether plain \<^verbatim>\<open>char\<close> is signed, the byte order of the host
  (the macro \<^verbatim>\<open>__BYTE_ORDER__\<close>), and the contents of freshly allocated memory.
  \<^verbatim>\<open>size_t\<close> and \<^verbatim>\<open>long\<close> are 64 bits wide and \<^verbatim>\<open>int\<close> is 32 bits wide (LP64).
  Allocation itself never fails in the model, so the \<^verbatim>\<open>ENOMEM\<close> returns that follow a
  failed \<^verbatim>\<open>malloc\<close> are not branches of it.
\<close>

type_synonym size_t = "64 word"
type_synonym memory = "nat \<Rightarrow> char option"

record platform =
  char_signed :: bool
  host_little_endian :: bool
  uninit_size :: "nat \<Rightarrow> size_t"
  uninit_byte :: "nat \<Rightarrow> char"

text \<open>The error numbers, with the values Linux gives them.\<close>

definition ENOMEM :: int where "ENOMEM = 12"
definition EINVAL :: int where "EINVAL = 22"
definition ERANGE :: int where "ERANGE = 34"
definition ENOTSUP :: int where "ENOTSUP = 95"
definition EBADF :: int where "EBADF = 9"

text \<open>
  A \<^verbatim>\<open>char\<close> used in an expression is promoted to \<^verbatim>\<open>int\<close>: sign-extended where
  \<^verbatim>\<open>char\<close> is signed, zero-extended where it is not.
\<close>

definition char_to_int :: "platform \<Rightarrow> char \<Rightarrow> 32 word" where
  "char_to_int pf c =
     (if char_signed pf then scast (of_char c :: 8 word) else ucast (of_char c :: 8 word))"

text \<open>The object of \<open>bs\<close> placed at address \<open>base\<close>, and reads of \<open>n\<close> bytes.\<close>

definition region :: "nat \<Rightarrow> char list \<Rightarrow> memory" where
  "region base bs = (\<lambda>p. if base \<le> p \<and> p < base + length bs then Some (bs ! (p - base)) else None)"

fun read_bytes :: "memory \<Rightarrow> nat \<Rightarrow> nat \<Rightarrow> char list option" where
  "read_bytes m p 0 = Some []"
| "read_bytes m p (Suc n) =
     (case m p of None \<Rightarrow> None
      | Some c \<Rightarrow> (case read_bytes m (Suc p) n of None \<Rightarrow> None | Some cs \<Rightarrow> Some (c # cs)))"

text \<open>
  The pointer \<^verbatim>\<open>data\<close> either is null, or points into the memory the caller or
  \<^verbatim>\<open>mmap\<close> provided (an address), or owns a block the library allocated (its bytes).
\<close>

datatype data_ptr = NullPtr | Addr nat | HeapBlock "char list"

record npio_Array =
  major_version :: char
  minor_version :: char
  header_len :: size_t
  dtype :: "char list option"
  dim :: size_t
  shape :: "size_t list option"
  size_field :: size_t
  fortran_order :: int
  little_endian :: int
  floating_point :: int
  is_signed :: int
  bit_width :: int
  data :: data_ptr
  priv_fd :: int
  priv_buf :: nat
  priv_buf_size :: size_t
  priv_hdr_buf :: "char list option"
  priv_shape_capacity :: size_t
  priv_mmapped :: int
  priv_malloced :: int
  priv_opened :: int

text \<open>
  \<^verbatim>\<open>npio_array_size\<close> multiplies the first \<open>dim\<close> cells of \<open>shape\<close> in \<^verbatim>\<open>size_t\<close>
  arithmetic; \<^verbatim>\<open>npio_array_memsize\<close> converts \<open>bit_width\<close> to \<^verbatim>\<open>size_t\<close>, multiplies
  and divides by 8.
\<close>

definition npio_array_size :: "npio_Array \<Rightarrow> size_t option" where
  "npio_array_size a =
     (if dim a = 0 then Some 1
      else case shape a of
        None \<Rightarrow> None
      | Some cells \<Rightarrow>
          if unat (dim a) \<le> length cells
          then Some (foldl (\<lambda>n v. n * v) 1 (take (unat (dim a)) cells))
          else None)"

definition npio_array_memsize :: "npio_Array \<Rightarrow> size_t option" where
  "npio_array_memsize a =
     (case npio_array_size a of
        None \<Rightarrow> None
      | Some n \<Rightarrow> Some ((n * word_of_int (bit_width a)) div 8))"

section \<open>The parser of the header dictionary\<close>

text \<open>\<^verbatim>\<open>isspace\<close> in the C locale.\<close>

definition isspace :: "char \<Rightarrow> bool" where
  "isspace c = (c \<in> set [CHR '' '', CHR 0x09, CHR 0x0A, CHR 0x0B, CHR 0x0C, CHR 0x0D])"

function npio_ph_skip_spaces :: "memory \<Rightarrow> nat \<Rightarrow> nat \<Rightarrow> nat option" where
  "npio_ph_skip_spaces m p e =
     (if p < e then
        (case m p of
           None \<Rightarrow> None
         | Some c \<Rightarrow> if isspace c then npio_ph_skip_spaces m (Suc p) e else Some p)
      else Some p)"
  by pat_completeness auto
termination
  by (relation "measure (\<lambda>(m, p, e). e - p)") auto

declare npio_ph_skip_spaces.simps [simp del]

text \<open>
  \<^verbatim>\<open>realloc\<close> keeps the old cells and leaves the new ones uninitialised. When the
  doubled capacity is zero the request is for zero bytes, and the cell that
  \<^verbatim>\<open>npio_ph_shape_append_\<close> stores next has no place in what \<^verbatim>\<open>realloc\<close> returns for
  it: the behaviour is undefined.
\<close>

definition realloc_cells :: "platform \<Rightarrow> size_t list option \<Rightarrow> nat \<Rightarrow> size_t list" where
  "realloc_cells pf old n =
     map (\<lambda>i. case old of
                 None \<Rightarrow> uninit_size pf i
               | Some cells \<Rightarrow> if i < length cells then cells ! i else uninit_size pf i)
         [0..<n]"

definition npio_ph_shape_append ::
  "platform \<Rightarrow> npio_Array \<Rightarrow> size_t \<Rightarrow> (int \<times> npio_Array) option" where
  "npio_ph_shape_append pf a val =
     (if dim a = priv_shape_capacity a \<and> priv_shape_capacity a * 2 = 0
      then None
      else
        let a1 = (if dim a = priv_shape_capacity a
                  then a\<lparr>priv_shape_capacity := priv_shape_capacity a * 2,
                         shape := Some (realloc_cells pf (shape a)
                                          (unat (priv_shape_capacity a * 2)))\<rparr>
                  else a)
        in case shape a1 of
             None \<Rightarrow> None
           | Some cells \<Rightarrow>
               if unat (dim a1) < length cells
               then Some (0, a1\<lparr>shape := Some (cells[unat (dim a1) := val]),
                                dim := dim a1 + 1\<rparr>)
               else None)"

text \<open>The scan over decimal digits, and the value of the digits scanned.\<close>

definition is_digit :: "platform \<Rightarrow> char \<Rightarrow> bool" where
  "is_digit pf c =
     (sint (char_to_int pf (CHR ''0'')) \<le> sint (char_to_int pf c)
      \<and> sint (char_to_int pf c) \<le> sint (char_to_int pf (CHR ''9'')))"

function scan_digits :: "platform \<Rightarrow> memory \<Rightarrow> nat \<Rightarrow> nat \<Rightarrow> nat option" where
  "scan_digits pf m p e =
     (if p < e then
        (case m p of
           None \<Rightarrow> None
         | Some c \<Rightarrow> if is_digit pf c then scan_digits pf m (Suc p) e else Some p)
      else Some p)"
  by pat_completeness auto
termination
  by (relation "measure (\<lambda>(pf, m, p, e). e - p)") auto

declare scan_digits.simps [simp del]

definition digits_value :: "platform \<Rightarrow> char list \<Rightarrow> size_t" where
  "digits_value pf ds =
     foldl (\<lambda>val c. scast (char_to_int pf c - char_to_int pf (CHR ''0'')) + val * 10) 0 ds"

lemma npio_ph_skip_spaces_ge:
  "npio_ph_skip_spaces m p e = Some q \<Longrightarrow> p \<le> q \<and> (p \<le> e \<longrightarrow> q \<le> e)"
proof (induction m p e rule: npio_ph_skip_spaces.induct)
  case (1 m p e)
  show ?case
  proof (cases "p < e")
    case False
    with "1.prems" show ?thesis
      by (simp add: npio_ph_skip_spaces.simps [of m p e])
  next
    case True
    with "1.prems" obtain c where c: "m p = Some c"
      by (auto simp: npio_ph_skip_spaces.simps [of m p e] split: option.splits)
    show ?thesis
    proof (cases "isspace c")
      case False
      with True c "1.prems" show ?thesis
        by (simp add: npio_ph_skip_spaces.simps [of m p e])
    next
      case sp: True
      with True c "1.prems" have "npio_ph_skip_spaces m (Suc p) e = Some q"
        by (simp add: npio_ph_skip_spaces.simps [of m p e])
      with "1.IH" [OF True c sp] True show ?thesis by auto
    qed
  qed
qed

lemma scan_digits_ge:
  "scan_digits pf m p e = Some q \<Longrightarrow> p \<le> q \<and> (p \<le> e \<longrightarrow> q \<le> e)"
proof (induction pf m p e rule: scan_digits.induct)
  case (1 pf m p e)
  show ?case
  proof (cases "p < e")
    case False
    with "1.prems" show ?thesis
      by (simp add: scan_digits.simps [of pf m p e])
  next
    case True
    with "1.prems" obtain c where c: "m p = Some c"
      by (auto simp: scan_digits.simps [of pf m p e] split: option.splits)
    show ?thesis
    proof (cases "is_digit pf c")
      case False
      with True c "1.prems" show ?thesis
        by (simp add: scan_digits.simps [of pf m p e])
    next
      case dg: True
      with True c "1.prems" have "scan_digits pf m (Suc p) e = Some q"
        by (simp add: scan_digits.simps [of pf m p e])
      with "1.IH" [OF True c dg] True show ?thesis by auto
    qed
  qed
qed

text \<open>
  The loop of \<^verbatim>\<open>npio_ph_parse_shape_\<close>. Its callers keep \<open>p \<le> e\<close>; behind \<open>e\<close> the C loop
  would read on with no bound, which the model counts as undefined.
\<close>

function shape_loop ::
  "platform \<Rightarrow> memory \<Rightarrow> nat \<Rightarrow> npio_Array \<Rightarrow> nat \<Rightarrow> (int \<times> npio_Array \<times> nat) option" where
  "shape_loop pf m e a p =
     (if e < p then None
      else
       (case npio_ph_skip_spaces m p e of
          None \<Rightarrow> None
        | Some nbeg \<Rightarrow>
           (case scan_digits pf m nbeg e of
              None \<Rightarrow> None
            | Some nend \<Rightarrow>
               (if nend = e then Some (EINVAL, a, nend)
                else
                 (case (if nbeg < nend
                        then (case read_bytes m nbeg (nend - nbeg) of
                                None \<Rightarrow> None
                              | Some ds \<Rightarrow> npio_ph_shape_append pf a (digits_value pf ds))
                        else Some (0, a)) of
                    None \<Rightarrow> None
                  | Some (err, a1) \<Rightarrow>
                     (if err \<noteq> 0 then Some (err, a1, nend)
                      else
                       (case npio_ph_skip_spaces m nend e of
                          None \<Rightarrow> None
                        | Some q \<Rightarrow>
                           (if q = e then Some (EINVAL, a1, q)
                            else
                             (case m q of
                                None \<Rightarrow> None
                              | Some c \<Rightarrow>
                                 (if c = CHR '','' then shape_loop pf m e a1 (Suc q)
                                  else if c = CHR '')'' then Some (0, a1, Suc q)
                                  else Some (EINVAL, a1, q)))))))))))"
  by pat_completeness auto
termination
  apply (relation "measure (\<lambda>(pf, m, e, a, p). Suc e - p)")
   apply simp
  apply (auto dest!: npio_ph_skip_spaces_ge scan_digits_ge)
  done

declare shape_loop.simps [simp del]

definition npio_ph_parse_shape ::
  "platform \<Rightarrow> memory \<Rightarrow> npio_Array \<Rightarrow> nat \<Rightarrow> nat \<Rightarrow> (int \<times> npio_Array \<times> nat) option" where
  "npio_ph_parse_shape pf m a start e =
     (if start = e then Some (EINVAL, a, start)
      else
       (case m start of
          None \<Rightarrow> None
        | Some c \<Rightarrow>
           (if c \<noteq> CHR ''('' then Some (EINVAL, a, start)
            else
             (case shape_loop pf m e
                     (a\<lparr>priv_shape_capacity := 8, shape := Some (realloc_cells pf None 8)\<rparr>)
                     (Suc start) of
                None \<Rightarrow> None
              | Some (err, a1, p) \<Rightarrow>
                 (if err \<noteq> 0 then Some (err, a1, start)
                  else
                   (case npio_array_size a1 of
                      None \<Rightarrow> None
                    | Some n \<Rightarrow> Some (0, a1\<lparr>size_field := n\<rparr>, p)))))))"

text \<open>
  \<^verbatim>\<open>npio_ph_parse_dtype_\<close> reads the C string \<open>dtype\<close> up to its terminating zero; each
  of its three switches updates the descriptor before the next one may fail.
\<close>

definition npio_ph_parse_dtype :: "npio_Array \<Rightarrow> (int \<times> npio_Array) option" where
  "npio_ph_parse_dtype a =
     (case dtype a of
        None \<Rightarrow> None
      | Some s \<Rightarrow>
         (let d = takeWhile (\<lambda>c. c \<noteq> CHR 0x00) s in
          if length d \<noteq> 3 then Some (ENOTSUP, a)
          else if d ! 0 \<noteq> CHR ''<'' \<and> d ! 0 \<noteq> CHR ''>'' then Some (ENOTSUP, a)
          else
           (let a1 = a\<lparr>little_endian := (if d ! 0 = CHR ''<'' then 1 else 0)\<rparr> in
            if d ! 1 \<noteq> CHR ''i'' \<and> d ! 1 \<noteq> CHR ''u'' \<and> d ! 1 \<noteq> CHR ''f''
            then Some (ENOTSUP, a1)
            else
             (let a2 = a1\<lparr>is_signed := (if d ! 1 = CHR ''u'' then 0 else 1),
                          floating_point := (if d ! 1 = CHR ''f'' then 1 else 0)\<rparr> in
              if d ! 2 = CHR ''1'' then Some (0, a2\<lparr>bit_width := 8\<rparr>)
              else if d ! 2 = CHR ''2'' then Some (0, a2\<lparr>bit_width := 16\<rparr>)
              else if d ! 2 = CHR ''4'' then Some (0, a2\<lparr>bit_width := 32\<rparr>)
              else if d ! 2 = CHR ''8'' then Some (0, a2\<lparr>bit_width := 64\<rparr>)
              else Some (ENOTSUP, a2)))))"

definition npio_ph_is_quote :: "char \<Rightarrow> bool" where
  "npio_ph_is_quote c = (c = CHR 0x27 \<or> c = CHR 0x22)"

text \<open>
  The guarded comparison \<^verbatim>\<open>p + n < end && memcmp(p, s, n) == 0\<close>: nothing is read when
  the guard fails.
\<close>

definition match_at :: "memory \<Rightarrow> nat \<Rightarrow> nat \<Rightarrow> char list \<Rightarrow> bool option" where
  "match_at m p e s =
     (if p + length s < e
      then (case read_bytes m p (length s) of None \<Rightarrow> None | Some cs \<Rightarrow> Some (cs = s))
      else Some False)"

datatype dict_key = k_descr | k_shape | k_fortran_order

definition dict_key_at :: "memory \<Rightarrow> nat \<Rightarrow> nat \<Rightarrow> (dict_key \<times> nat) option option" where
  "dict_key_at m p e =
     (case match_at m p e ''descr'' of
        None \<Rightarrow> None
      | Some True \<Rightarrow> Some (Some (k_descr, p + 5))
      | Some False \<Rightarrow>
         (case match_at m p e ''shape'' of
            None \<Rightarrow> None
          | Some True \<Rightarrow> Some (Some (k_shape, p + 5))
          | Some False \<Rightarrow>
             (case match_at m p e ''fortran_order'' of
                None \<Rightarrow> None
              | Some True \<Rightarrow> Some (Some (k_fortran_order, p + 13))
              | Some False \<Rightarrow> Some None)))"

text \<open>The scan \<^verbatim>\<open>while (p < end && *p != open_quote) ++p\<close> of a quoted value.\<close>

function scan_until :: "memory \<Rightarrow> char \<Rightarrow> nat \<Rightarrow> nat \<Rightarrow> nat option" where
  "scan_until m oq p e =
     (if p < e then
        (case m p of
           None \<Rightarrow> None
         | Some c \<Rightarrow> if c \<noteq> oq then scan_until m oq (Suc p) e else Some p)
      else Some p)"
  by pat_completeness auto
termination
  by (relation "measure (\<lambda>(m, oq, p, e). e - p)") auto

declare scan_until.simps [simp del]

text \<open>The \<^verbatim>\<open>switch (key)\<close> of \<^verbatim>\<open>npio_ph_parse_dict_\<close>: the value of one entry.\<close>

definition dict_value ::
  "platform \<Rightarrow> memory \<Rightarrow> nat \<Rightarrow> npio_Array \<Rightarrow> dict_key \<Rightarrow> nat
     \<Rightarrow> (int \<times> npio_Array \<times> nat) option" where
  "dict_value pf m e a key p =
     (case key of
        k_descr \<Rightarrow>
          (case m p of
             None \<Rightarrow> None
           | Some oq \<Rightarrow>
              (if \<not> npio_ph_is_quote oq then Some (EINVAL, a, Suc p)
               else
                (case scan_until m oq (Suc p) e of
                   None \<Rightarrow> None
                 | Some dtend \<Rightarrow>
                    (if dtend = e then Some (EINVAL, a, dtend)
                     else
                      (case read_bytes m (Suc p) (dtend - Suc p) of
                         None \<Rightarrow> None
                       | Some s \<Rightarrow> Some (0, a\<lparr>dtype := Some s\<rparr>, Suc dtend))))))
      | k_fortran_order \<Rightarrow>
          (case match_at m p e ''True'' of
             None \<Rightarrow> None
           | Some True \<Rightarrow> Some (0, a\<lparr>fortran_order := 1\<rparr>, p + 4)
           | Some False \<Rightarrow>
              (case match_at m p e ''False'' of
                 None \<Rightarrow> None
               | Some True \<Rightarrow> Some (0, a\<lparr>fortran_order := 0\<rparr>, p + 5)
               | Some False \<Rightarrow> Some (EINVAL, a, p)))
      | k_shape \<Rightarrow> npio_ph_parse_shape pf m a p e)"

lemma scan_until_ge:
  "scan_until m oq p e = Some q \<Longrightarrow> p \<le> q"
proof (induction m oq p e rule: scan_until.induct)
  case (1 m oq p e)
  show ?case
  proof (cases "p < e")
    case False
    with "1.prems" show ?thesis
      by (simp add: scan_until.simps [of m oq p e])
  next
    case True
    with "1.prems" obtain c where c: "m p = Some c"
      by (auto simp: scan_until.simps [of m oq p e] split: option.splits)
    show ?thesis
    proof (cases "c \<noteq> oq")
      case False
      with True c "1.prems" show ?thesis
        by (simp add: scan_until.simps [of m oq p e])
    next
      case ne: True
      with True c "1.prems" have "scan_until m oq (Suc p) e = Some q"
        by (simp add: scan_until.simps [of m oq p e])
      with "1.IH" [OF True c ne] show ?thesis by auto
    qed
  qed
qed

lemma shape_loop_ge:
  "shape_loop pf m e a p = Some (0, a', q) \<Longrightarrow> p < q"
proof (induction pf m e a p rule: shape_loop.induct)
  case (1 pf m e a p)
  from "1.prems" have pe: "\<not> e < p"
    by (simp add: shape_loop.simps [of pf m e a p] split: if_splits)
  from "1.prems" pe obtain nbeg where nbeg: "npio_ph_skip_spaces m p e = Some nbeg"
    by (auto simp: shape_loop.simps [of pf m e a p] split: option.splits)
  from "1.prems" pe nbeg obtain nend where nend: "scan_digits pf m nbeg e = Some nend"
    by (auto simp: shape_loop.simps [of pf m e a p] split: option.splits)
  from "1.prems" pe nbeg nend have ne: "nend \<noteq> e"
    by (auto simp: shape_loop.simps [of pf m e a p] EINVAL_def)
  let ?app = "if nbeg < nend
              then (case read_bytes m nbeg (nend - nbeg) of
                      None \<Rightarrow> None
                    | Some ds \<Rightarrow> npio_ph_shape_append pf a (digits_value pf ds))
              else Some (0, a)"
  from "1.prems" pe nbeg nend ne obtain err a1 where app: "?app = Some (err, a1)"
    by (cases ?app) (auto simp: shape_loop.simps [of pf m e a p])
  from "1.prems" pe nbeg nend ne app have err: "err = 0"
    by (simp add: shape_loop.simps [of pf m e a p] split: if_splits)
  from "1.prems" pe nbeg nend ne app err obtain r where r: "npio_ph_skip_spaces m nend e = Some r"
    by (auto simp: shape_loop.simps [of pf m e a p] split: option.splits)
  from "1.prems" pe nbeg nend ne app err r have re: "r \<noteq> e"
    by (auto simp: shape_loop.simps [of pf m e a p] EINVAL_def)
  from "1.prems" pe nbeg nend ne app err r re obtain c where c: "m r = Some c"
    by (auto simp: shape_loop.simps [of pf m e a p] split: option.splits)
  have chain: "p \<le> r"
    using npio_ph_skip_spaces_ge [OF nbeg] scan_digits_ge [OF nend] npio_ph_skip_spaces_ge [OF r]
    by linarith
  show ?case
  proof (cases "c = CHR '',''")
    case True
    with "1.prems" pe nbeg nend ne app err r re c
    have "shape_loop pf m e a1 (Suc r) = Some (0, a', q)"
      by (simp add: shape_loop.simps [of pf m e a p])
    moreover from err have "\<not> err \<noteq> 0" by simp
    ultimately have "Suc r < q"
      using "1.IH" [OF pe nbeg nend ne app refl _ r re c True] by blast
    with chain show ?thesis by simp
  next
    case False
    with "1.prems" pe nbeg nend ne app err r re c have "q = Suc r"
      by (auto simp: shape_loop.simps [of pf m e a p] EINVAL_def split: if_splits)
    with chain show ?thesis by simp
  qed
qed

lemma dict_value_ge:
  assumes "dict_value pf m e a key p = Some (0, a', q)"
  shows "p < q"
proof (cases key)
  case k_descr
  with assms show ?thesis
    by (auto simp: dict_value_def EINVAL_def split: option.splits if_splits dest!: scan_until_ge)
next
  case k_shape
  with assms show ?thesis
    by (auto simp: dict_value_def npio_ph_parse_shape_def EINVAL_def
        split: option.splits if_splits prod.splits dest!: shape_loop_ge)
next
  case k_fortran_order
  with assms show ?thesis
    by (auto simp: dict_value_def EINVAL_def split: option.splits if_splits bool.splits)
qed

lemma dict_key_at_ge:
  "dict_key_at m p e = Some (Some (key, q)) \<Longrightarrow> p < q"
  by (auto simp: dict_key_at_def split: option.splits bool.splits)

text \<open>
  The test \<^verbatim>\<open>p >= end || *p++ != c\<close>: \<open>Some True\<close> when the expected character
  stands at \<open>p\<close>.
\<close>

definition expect_char :: "memory \<Rightarrow> nat \<Rightarrow> char \<Rightarrow> nat \<Rightarrow> bool option" where
  "expect_char m e c p =
     (if e \<le> p then Some False
      else (case m p of None \<Rightarrow> None | Some c' \<Rightarrow> Some (c' = c)))"

text \<open>The loop over the entries of the dictionary, up to its closing brace.\<close>

function dict_loop ::
  "platform \<Rightarrow> memory \<Rightarrow> nat \<Rightarrow> npio_Array \<Rightarrow> nat \<Rightarrow> (int \<times> npio_Array) option" where
  "dict_loop pf m e a p0 =
     (case npio_ph_skip_spaces m p0 e of
        None \<Rightarrow> None
      | Some p \<Rightarrow>
         (if e \<le> p then Some (EINVAL, a)
          else
           (case m p of
              None \<Rightarrow> None
            | Some oq \<Rightarrow>
               (if oq = CHR ''}'' then Some (0, a)
                else if \<not> npio_ph_is_quote oq then Some (EINVAL, a)
                else
                 (case dict_key_at m (Suc p) e of
                    None \<Rightarrow> None
                  | Some None \<Rightarrow> Some (EINVAL, a)
                  | Some (Some (key, p2)) \<Rightarrow>
                     (case expect_char m e oq p2 of
                        None \<Rightarrow> None
                      | Some False \<Rightarrow> Some (EINVAL, a)
                      | Some True \<Rightarrow>
                         (case npio_ph_skip_spaces m (Suc p2) e of
                            None \<Rightarrow> None
                          | Some p4 \<Rightarrow>
                             (case expect_char m e (CHR '':'') p4 of
                                None \<Rightarrow> None
                              | Some False \<Rightarrow> Some (EINVAL, a)
                              | Some True \<Rightarrow>
                                 (case npio_ph_skip_spaces m (Suc p4) e of
                                    None \<Rightarrow> None
                                  | Some p5 \<Rightarrow>
                                     (if p5 = e then Some (EINVAL, a)
                                      else
                                       (case dict_value pf m e a key p5 of
                                          None \<Rightarrow> None
                                        | Some (err, a1, p6) \<Rightarrow>
                                           (if err \<noteq> 0 then Some (err, a1)
                                            else
                                             (case npio_ph_skip_spaces m p6 e of
                                                None \<Rightarrow> None
                                              | Some p7 \<Rightarrow>
                                                 (if p7 = e then Some (EINVAL, a1)
                                                  else
                                                   (case m p7 of
                                                      None \<Rightarrow> None
                                                    | Some c \<Rightarrow>
                                                       dict_loop pf m e a1
                                                         (if c = CHR '','' then Suc p7 else p7)
  )))))))))))))))"
  by pat_completeness auto
termination
proof (relation "measure (\<lambda>(pf, m, e, a, p). e - p)", goal_cases)
  case 1
  show ?case by simp
next
  case (2 pf m e a p0 p oq k kp key p2 t p4 t' p5 r err ap a1 p6 p7 c)
  have "p0 \<le> p" using npio_ph_skip_spaces_ge [OF 2(1)] by simp
  moreover have "p < e" using 2(2) by simp
  moreover have "Suc p < p2" using dict_key_at_ge 2(6,7,8) by auto
  moreover have "Suc p2 \<le> p4" using npio_ph_skip_spaces_ge [OF 2(11)] by simp
  moreover have "Suc p4 \<le> p5" using npio_ph_skip_spaces_ge [OF 2(14)] by simp
  moreover have "p5 < p6" using dict_value_ge 2(16,17,18,19) by auto
  moreover have "p6 \<le> p7" using npio_ph_skip_spaces_ge [OF 2(20)] by simp
  ultimately show ?case by auto
qed

declare dict_loop.simps [simp del]

definition npio_ph_parse_dict ::
  "platform \<Rightarrow> memory \<Rightarrow> npio_Array \<Rightarrow> nat \<Rightarrow> nat \<Rightarrow> (int \<times> npio_Array) option" where
  "npio_ph_parse_dict pf m a start e =
     (if e \<le> start then Some (EINVAL, a)
      else
       (case m start of
          None \<Rightarrow> None
        | Some c \<Rightarrow>
           (if c \<noteq> CHR ''{'' then Some (EINVAL, a)
            else
             (case dict_loop pf m e a (Suc start) of
                None \<Rightarrow> None
              | Some (err, a1) \<Rightarrow>
                 (if err \<noteq> 0 then Some (err, a1) else npio_ph_parse_dtype a1)))))"

section \<open>Loading the header\<close>

text \<open>
  \<^verbatim>\<open>npio_init_array\<close> assigns every field but \<^verbatim>\<open>_opened\<close>.
\<close>

definition npio_init_array :: "platform \<Rightarrow> npio_Array \<Rightarrow> npio_Array" where
  "npio_init_array pf a =
     a\<lparr>major_version := CHR 0x01, minor_version := CHR 0x00, header_len := 0,
       dtype := None, dim := 0, shape := None, size_field := 0, fortran_order := 0,
       little_endian := (if host_little_endian pf then 1 else 0),
       floating_point := 1, is_signed := 1, bit_width := 32, data := NullPtr,
       priv_fd := 0, priv_buf := 0, priv_buf_size := 0, priv_hdr_buf := None,
       priv_shape_capacity := 0, priv_mmapped := 0, priv_malloced := 0\<rparr>"

text \<open>Pointer arithmetic \<^verbatim>\<open>p + n\<close> in the flat 64-bit address space.\<close>

definition ptr_add :: "nat \<Rightarrow> size_t \<Rightarrow> nat" where
  "ptr_add p n = unat (word_of_nat p + n :: size_t)"

definition magic :: "char list" where
  "magic = [CHR 0x93, CHR ''N'', CHR ''U'', CHR ''M'', CHR ''P'', CHR ''Y'']"

text \<open>
  \<^verbatim>\<open>npio_load_header_prelude_\<close>: the bytes of the length are \<^verbatim>\<open>char\<close>s, promoted to
  \<^verbatim>\<open>int\<close>, shifted and added in \<^verbatim>\<open>int\<close>, and the sum is converted to \<^verbatim>\<open>size_t\<close>.
  The third component of the result is \<^verbatim>\<open>*end\<close>, assigned on success only.
\<close>

definition npio_load_header_prelude ::
  "platform \<Rightarrow> memory \<Rightarrow> nat \<Rightarrow> npio_Array \<Rightarrow> (int \<times> npio_Array \<times> nat) option" where
  "npio_load_header_prelude pf m p a =
     (case read_bytes m p 6 of
        None \<Rightarrow> None
      | Some mg \<Rightarrow>
         (if mg \<noteq> magic then Some (EINVAL, a, p)
          else
           (case read_bytes m (p + 6) 2 of
              None \<Rightarrow> None
            | Some v \<Rightarrow>
               (if char_to_int pf (v ! 0) = 1 then
                  (case read_bytes m (p + 8) 2 of
                     None \<Rightarrow> None
                   | Some l \<Rightarrow>
                      Some (0, a\<lparr>major_version := v ! 0, minor_version := v ! 1,
                                 header_len := scast (char_to_int pf (l ! 0)
                                                  + push_bit 8 (char_to_int pf (l ! 1)))\<rparr>,
                            p + 10))
                else if char_to_int pf (v ! 0) = 2 then
                  (case read_bytes m (p + 8) 4 of
                     None \<Rightarrow> None
                   | Some l \<Rightarrow>
                      Some (0, a\<lparr>major_version := v ! 0, minor_version := v ! 1,
                                 header_len := scast (char_to_int pf (l ! 0)
                                                  + push_bit 8 (char_to_int pf (l ! 1))
                                                  + push_bit 16 (char_to_int pf (l ! 2))
                                                  + push_bit 24 (char_to_int pf (l ! 3)))\<rparr>,
                            p + 12))
                else Some (ENOTSUP, a\<lparr>major_version := v ! 0, minor_version := v ! 1\<rparr>, p)))))"

definition npio_load_header_mem4 ::
  "platform \<Rightarrow> memory \<Rightarrow> nat \<Rightarrow> size_t \<Rightarrow> npio_Array \<Rightarrow> size_t \<Rightarrow> (int \<times> npio_Array) option" where
  "npio_load_header_mem4 pf m p sz a max_dim =
     (if sz < 16 then Some (EINVAL, a)
      else
       (case npio_load_header_prelude pf m p
               (if priv_mmapped a = 0 then a\<lparr>priv_buf := p, priv_buf_size := sz\<rparr> else a) of
          None \<Rightarrow> None
        | Some (err, a1, q) \<Rightarrow>
           (if err \<noteq> 0 then Some (err, a1)
            else npio_ph_parse_dict pf m a1 q
                   (if ptr_add q (header_len a1) < ptr_add p sz
                    then ptr_add q (header_len a1) else ptr_add p sz))))"

definition NPIO_DEFAULT_MAX_DIM :: size_t where
  "NPIO_DEFAULT_MAX_DIM = 32"

definition npio_load_header_mem ::
  "platform \<Rightarrow> memory \<Rightarrow> nat \<Rightarrow> size_t \<Rightarrow> npio_Array \<Rightarrow> (int \<times> npio_Array) option" where
  "npio_load_header_mem pf m p sz a = npio_load_header_mem4 pf m p sz a NPIO_DEFAULT_MAX_DIM"

section \<open>File descriptors\<close>

text \<open>
  The system calls the header uses, on a small model of the kernel's side: an open
  descriptor has the bytes of its file or stream and a read position, may or may not be
  seekable and mappable, and takes a bounded number of written bytes. A read delivers as
  many of the requested bytes as remain. \<open>errno\<close> is assigned by a failing call only.
\<close>

record fd_state =
  contents :: "char list"
  pos :: nat
  seekable :: bool
  map_addr :: "nat option"
  written :: "char list"
  room :: nat

record world =
  fds :: "int \<Rightarrow> fd_state option"
  errno :: int

definition ESPIPE :: int where "ESPIPE = 29"
definition ENODEV :: int where "ENODEV = 19"
definition ENOSPC :: int where "ENOSPC = 28"
definition EFAULT :: int where "EFAULT = 14"

definition sys_read :: "world \<Rightarrow> int \<Rightarrow> nat \<Rightarrow> int \<times> char list \<times> world" where
  "sys_read w fd n =
     (case fds w fd of
        None \<Rightarrow> (- 1, [], w\<lparr>errno := EBADF\<rparr>)
      | Some s \<Rightarrow>
         (int (length (take n (drop (pos s) (contents s)))),
          take n (drop (pos s) (contents s)),
          w\<lparr>fds := (fds w)(fd := Some (s\<lparr>pos := pos s + length (take n (drop (pos s) (contents s)))\<rparr>))\<rparr>))"

definition sys_lseek_end :: "world \<Rightarrow> int \<Rightarrow> int \<times> world" where
  "sys_lseek_end w fd =
     (case fds w fd of
        None \<Rightarrow> (- 1, w\<lparr>errno := EBADF\<rparr>)
      | Some s \<Rightarrow>
         (if seekable s
          then (int (length (contents s)),
                w\<lparr>fds := (fds w)(fd := Some (s\<lparr>pos := length (contents s)\<rparr>))\<rparr>)
          else (- 1, w\<lparr>errno := ESPIPE\<rparr>)))"

text \<open>\<^verbatim>\<open>mmap\<close> of the whole file: the address, or \<open>None\<close> for \<^verbatim>\<open>MAP_FAILED\<close>.\<close>

definition sys_mmap :: "world \<Rightarrow> int \<Rightarrow> nat \<Rightarrow> nat option \<times> world" where
  "sys_mmap w fd len =
     (case fds w fd of
        None \<Rightarrow> (None, w\<lparr>errno := EBADF\<rparr>)
      | Some s \<Rightarrow>
         (if len = 0 then (None, w\<lparr>errno := EINVAL\<rparr>)
          else (case map_addr s of
                  None \<Rightarrow> (None, w\<lparr>errno := ENODEV\<rparr>)
                | Some addr \<Rightarrow> (Some addr, w))))"

definition sys_write :: "world \<Rightarrow> int \<Rightarrow> char list \<Rightarrow> int \<times> world" where
  "sys_write w fd bs =
     (case fds w fd of
        None \<Rightarrow> (- 1, w\<lparr>errno := EBADF\<rparr>)
      | Some s \<Rightarrow>
         (if room s = 0 \<and> bs \<noteq> [] then (- 1, w\<lparr>errno := ENOSPC\<rparr>)
          else (int (length (take (room s) bs)),
                w\<lparr>fds := (fds w)(fd := Some (s\<lparr>written := written s @ take (room s) bs,
                                                 room := room s - length (take (room s) bs)\<rparr>))\<rparr>)))"

text \<open>The object \<open>bs\<close> placed into memory at \<open>addr\<close>.\<close>

definition mem_add :: "memory \<Rightarrow> nat \<Rightarrow> char list \<Rightarrow> memory" where
  "mem_add m addr bs =
     (\<lambda>p. if addr \<le> p \<and> p < addr + length bs then Some (bs ! (p - addr)) else m p)"

text \<open>
  \<^verbatim>\<open>npio_load_header_fd_read_\<close>. The array \<^verbatim>\<open>prelude\<close> lives on the stack at
  \<open>stack_addr\<close> and the block \<^verbatim>\<open>_hdr_buf\<close> on the heap at \<open>heap_addr\<close>; the bound
  \<^verbatim>\<open>end\<close> the parser gets is the one the prelude left, an address of the stack array.
\<close>

record addresses =
  stack_addr :: nat
  heap_addr :: nat

definition junk_bytes :: "platform \<Rightarrow> nat \<Rightarrow> nat \<Rightarrow> char list" where
  "junk_bytes pf from n = map (uninit_byte pf) [from..<from + n]"

definition npio_load_header_fd_read ::
  "platform \<Rightarrow> addresses \<Rightarrow> world \<Rightarrow> int \<Rightarrow> npio_Array \<Rightarrow> size_t
     \<Rightarrow> (int \<times> npio_Array \<times> world) option" where
  "npio_load_header_fd_read pf ad w fd a max_dim =
     (case sys_read w fd 12 of
        (nr, prelude, w1) \<Rightarrow>
         (if nr < 12 then Some (errno w1, a, w1)
          else
           (case npio_load_header_prelude pf (region (stack_addr ad) prelude) (stack_addr ad) a of
              None \<Rightarrow> None
            | Some (err, a1, e) \<Rightarrow>
               (if err \<noteq> 0 then Some (err, a1, w1)
                else if header_len a1 > 1024 + max_dim * 20 then Some (ERANGE, a1, w1)
                else if unat (12 + header_len a1) < 12 then None
                else
                 (case sys_read w1 fd (unat (header_len a1)) of
                    (nr2, rest, w2) \<Rightarrow>
                     (case npio_ph_parse_dict pf
                             (mem_add (region (stack_addr ad) prelude) (heap_addr ad)
                                (prelude @ rest
                                   @ junk_bytes pf (12 + length rest)
                                       (unat (header_len a1) - length rest)))
                             (a1\<lparr>priv_hdr_buf :=
                                   Some (prelude @ rest
                                         @ junk_bytes pf (12 + length rest)
                                             (unat (header_len a1) - length rest))\<rparr>)
                             (heap_addr ad + (e - stack_addr ad)) e of
                        None \<Rightarrow> None
                      | Some (err2, a2) \<Rightarrow> Some (err2, a2, w2)))))))"

definition npio_load_header_fd3 ::
  "platform \<Rightarrow> addresses \<Rightarrow> world \<Rightarrow> memory \<Rightarrow> int \<Rightarrow> npio_Array \<Rightarrow> size_t
     \<Rightarrow> (int \<times> npio_Array \<times> memory \<times> world) option" where
  "npio_load_header_fd3 pf ad w m fd a max_dim =
     (case sys_lseek_end w fd of
        (file_size, w1) \<Rightarrow>
         (if file_size < 0 then
            (case npio_load_header_fd_read pf ad w1 fd
                    (if priv_opened a = 0 then a\<lparr>priv_fd := fd\<rparr> else a) max_dim of
               None \<Rightarrow> None
             | Some (err, a1, w2) \<Rightarrow> Some (err, a1, m, w2))
          else
           (case sys_mmap w1 fd (nat file_size) of
              (None, w2) \<Rightarrow>
               (case npio_load_header_fd_read pf ad w2 fd
                       (if priv_opened a = 0 then a\<lparr>priv_fd := fd\<rparr> else a) max_dim of
                  None \<Rightarrow> None
                | Some (err, a1, w3) \<Rightarrow> Some (err, a1, m, w3))
            | (Some addr, w2) \<Rightarrow>
               (case npio_load_header_mem4 pf
                       (mem_add m addr (case fds w2 fd of None \<Rightarrow> [] | Some s \<Rightarrow> contents s))
                       addr (word_of_int file_size)
                       ((if priv_opened a = 0 then a\<lparr>priv_fd := fd\<rparr> else a)
                          \<lparr>priv_mmapped := 1, priv_buf := addr,
                           priv_buf_size := word_of_int file_size\<rparr>)
                       max_dim of
                  None \<Rightarrow> None
                | Some (err, a1) \<Rightarrow>
                   Some (err, a1,
                         mem_add m addr (case fds w2 fd of None \<Rightarrow> [] | Some s \<Rightarrow> contents s),
                         w2)))))"

section \<open>Loading the data\<close>

text \<open>
  \<^verbatim>\<open>npio_swap_bytes_\<close> exchanges two bytes; \<^verbatim>\<open>npio_swap_bytes\<close> applies the exchanges
  of its width to each of the \<open>n\<close> elements in turn. The list is the object \<open>data\<close> points
  to; an element behind its end is a write behind the object.
\<close>

definition npio_swap_bytes_pair :: "char list \<Rightarrow> nat \<Rightarrow> nat \<Rightarrow> char list" where
  "npio_swap_bytes_pair bs i j = bs[i := bs ! j, j := bs ! i]"

definition swap_element :: "nat \<Rightarrow> char list \<Rightarrow> char list" where
  "swap_element w el =
     (if w = 2 then npio_swap_bytes_pair el 0 1
      else if w = 4 then npio_swap_bytes_pair (npio_swap_bytes_pair el 0 3) 1 2
      else npio_swap_bytes_pair (npio_swap_bytes_pair (npio_swap_bytes_pair
             (npio_swap_bytes_pair el 0 7) 1 6) 2 5) 3 4)"

fun swap_elements :: "nat \<Rightarrow> nat \<Rightarrow> char list \<Rightarrow> char list option" where
  "swap_elements 0 w bs = Some bs"
| "swap_elements (Suc n) w bs =
     (if length bs < w then None
      else (case swap_elements n w (drop w bs) of
              None \<Rightarrow> None
            | Some r \<Rightarrow> Some (swap_element w (take w bs) @ r)))"

definition npio_swap_bytes :: "size_t \<Rightarrow> size_t \<Rightarrow> char list \<Rightarrow> (int \<times> char list) option" where
  "npio_swap_bytes n bw bs =
     (if bw = 8 then Some (0, bs)
      else if bw = 16 then map_option (Pair 0) (swap_elements (unat n) 2 bs)
      else if bw = 32 then map_option (Pair 0) (swap_elements (unat n) 4 bs)
      else if bw = 64 then map_option (Pair 0) (swap_elements (unat n) 8 bs)
      else Some (ENOTSUP, bs))"

text \<open>The swap applied to what \<open>data\<close> points to: mapped memory, or the allocated block.\<close>

definition swap_data ::
  "memory \<Rightarrow> npio_Array \<Rightarrow> (int \<times> npio_Array \<times> memory) option" where
  "swap_data m a =
     (case data a of
        NullPtr \<Rightarrow>
         map_option (\<lambda>(rc, bs). (rc, a, m))
           (npio_swap_bytes (size_field a) (word_of_int (bit_width a)) [])
      | HeapBlock bs \<Rightarrow>
         map_option (\<lambda>(rc, bs'). (rc, a\<lparr>data := HeapBlock bs'\<rparr>, m))
           (npio_swap_bytes (size_field a) (word_of_int (bit_width a)) bs)
      | Addr p \<Rightarrow>
         (if word_of_int (bit_width a) \<in> {16, 32, 64 :: size_t} then
            (case read_bytes m p
                    (unat (size_field a) * (unat (word_of_int (bit_width a) :: size_t) div 8)) of
               None \<Rightarrow> None
             | Some bs \<Rightarrow>
                map_option (\<lambda>(rc, bs'). (rc, a, mem_add m p bs'))
                  (npio_swap_bytes (size_field a) (word_of_int (bit_width a)) bs))
          else map_option (\<lambda>(rc, bs). (rc, a, m))
                 (npio_swap_bytes (size_field a) (word_of_int (bit_width a)) [])))"

definition data_offset :: "npio_Array \<Rightarrow> size_t" where
  "data_offset a =
     header_len a + 6 + (if of_char (major_version a) = (1 :: 8 word) then 4 else 6)"

text \<open>
  The end of \<^verbatim>\<open>npio_load_data2\<close>: the payload is swapped when the caller asks for it
  and the byte order of the file is not the one of the host.
\<close>

definition swap_if_needed ::
  "platform \<Rightarrow> memory \<Rightarrow> world \<Rightarrow> npio_Array \<Rightarrow> int
     \<Rightarrow> (int \<times> npio_Array \<times> memory \<times> world) option" where
  "swap_if_needed pf m w a swap_bytes =
     (if swap_bytes \<noteq> 0 \<and> (if host_little_endian pf then 1 else 0) \<noteq> little_endian a
      then (case swap_data m (a\<lparr>little_endian := (if host_little_endian pf then 1 else 0)\<rparr>) of
              None \<Rightarrow> None
            | Some (rc, a2, m2) \<Rightarrow> Some (rc, a2, m2, w))
      else Some (0, a, m, w))"

text \<open>
  \<^verbatim>\<open>npio_load_data2\<close>. Each \<^verbatim>\<open>return\<close> of the source ends the function with the
  value returned, also \<^verbatim>\<open>return errno\<close> when \<open>errno\<close> is 0.
\<close>

definition npio_load_data2 ::
  "platform \<Rightarrow> world \<Rightarrow> memory \<Rightarrow> npio_Array \<Rightarrow> int
     \<Rightarrow> (int \<times> npio_Array \<times> memory \<times> world) option" where
  "npio_load_data2 pf w m a swap_bytes =
     (if data_offset a mod 16 \<noteq> 0 then Some (EINVAL, a, m, w)
      else if priv_mmapped a \<noteq> 0 then
        (case npio_array_memsize a of
           None \<Rightarrow> None
         | Some msz \<Rightarrow>
            (if data_offset a + msz \<noteq> priv_buf_size a then Some (EINVAL, a, m, w)
             else swap_if_needed pf m w
                    (a\<lparr>data := Addr (ptr_add (priv_buf a) (data_offset a))\<rparr>) swap_bytes))
      else if sint (size_field a * word_of_int (bit_width a) div 8) < 0
      then Some (ERANGE, a, m, w)
      else
       (case sys_read w (priv_fd a)
               (unat (size_field a * word_of_int (bit_width a) div 8)) of
          (nr, bs, w1) \<Rightarrow>
           (if nr \<noteq> sint (size_field a * word_of_int (bit_width a) div 8)
            then Some (errno w1,
                       a\<lparr>data := HeapBlock (bs @ junk_bytes pf (length bs)
                           (unat (size_field a * word_of_int (bit_width a) div 8)
                              - length bs))\<rparr>, m, w1)
            else swap_if_needed pf m w1 (a\<lparr>data := HeapBlock bs\<rparr>) swap_bytes)))"

definition npio_load_data ::
  "platform \<Rightarrow> world \<Rightarrow> memory \<Rightarrow> npio_Array \<Rightarrow> (int \<times> npio_Array \<times> memory \<times> world) option" where
  "npio_load_data pf w m a = npio_load_data2 pf w m a 1"

definition npio_load_fd3 ::
  "platform \<Rightarrow> addresses \<Rightarrow> world \<Rightarrow> memory \<Rightarrow> int \<Rightarrow> npio_Array \<Rightarrow> size_t
     \<Rightarrow> (int \<times> npio_Array \<times> memory \<times> world) option" where
  "npio_load_fd3 pf ad w m fd a max_dim =
     (case npio_load_header_fd3 pf ad w m fd a max_dim of
        None \<Rightarrow> None
      | Some (err, a1, m1, w1) \<Rightarrow>
         (if err \<noteq> 0 then Some (err, a1, m1, w1) else npio_load_data pf w1 m1 a1))"

definition npio_load_mem4 ::
  "platform \<Rightarrow> world \<Rightarrow> memory \<Rightarrow> nat \<Rightarrow> size_t \<Rightarrow> npio_Array \<Rightarrow> size_t
     \<Rightarrow> (int \<times> npio_Array \<times> memory \<times> world) option" where
  "npio_load_mem4 pf w m p sz a max_dim =
     (case npio_load_header_mem4 pf m p sz a max_dim of
        None \<Rightarrow> None
      | Some (err, a1) \<Rightarrow>
         (if err \<noteq> 0 then Some (err, a1, m, w) else npio_load_data pf w m a1))"

definition npio_load_mem ::
  "platform \<Rightarrow> world \<Rightarrow> memory \<Rightarrow> nat \<Rightarrow> size_t \<Rightarrow> npio_Array
     \<Rightarrow> (int \<times> npio_Array \<times> memory \<times> world) option" where
  "npio_load_mem pf w m p sz a = npio_load_mem4 pf w m p sz a NPIO_DEFAULT_MAX_DIM"

section \<open>Saving\<close>

text \<open>
  What \<^verbatim>\<open>%d\<close> and \<^verbatim>\<open>%ld\<close> print, and the division of C, which truncates towards zero.
\<close>

definition digit_char :: "nat \<Rightarrow> char" where
  "digit_char n = char_of (48 + n)"

function show_nat :: "nat \<Rightarrow> char list" where
  "show_nat n = (if n < 10 then [digit_char n] else show_nat (n div 10) @ [digit_char (n mod 10)])"
  by pat_completeness auto
termination
  by (relation "measure id") auto

declare show_nat.simps [simp del]

definition show_int :: "int \<Rightarrow> char list" where
  "show_int i = (if i < 0 then CHR ''-'' # show_nat (nat (- i)) else show_nat (nat i))"

definition c_div :: "int \<Rightarrow> int \<Rightarrow> int" where
  "c_div x y = sgn x * sgn y * (\<bar>x\<bar> div \<bar>y\<bar>)"

text \<open>
  Writes behind the buffer. The three \<^verbatim>\<open>sprintf\<close> calls for the fixed part and the one
  for the closing \<open>)} \<close> are unbounded: when the text and its terminating zero, ending
  at offset \<open>e\<close>, do not fit a buffer of \<open>sz\<close> bytes, the last \<open>e - sz\<close> of them are
  stored behind it. The model goes on as the flat address space does and counts the
  bytes behind the buffer.
\<close>

definition past :: "nat \<Rightarrow> nat \<Rightarrow> nat" where
  "past sz e = e - sz"

text \<open>
  The loop over the dimensions of \<^verbatim>\<open>npio_save_header_mem\<close>. \<^verbatim>\<open>snprintf\<close> returns the
  length of the whole text also when it had to cut it, so that the test behind it fires
  then; \<open>t\<close> is the text written so far, from the start of the buffer, and \<open>b\<close> the
  number of bytes behind the buffer so far. The bound \<^verbatim>\<open>hdr_end - hdr\<close> is converted to
  \<^verbatim>\<open>size_t\<close>: it is 0 when \<open>t\<close> ends at the end of the buffer, and no bound at all when
  \<open>t\<close> ends behind it.
\<close>

function save_shape_loop ::
  "npio_Array \<Rightarrow> nat \<Rightarrow> nat \<Rightarrow> char list \<Rightarrow> nat \<Rightarrow> (int \<times> char list \<times> nat) option" where
  "save_shape_loop a sz i t b =
     (if i < unat (dim a) then
        (case shape a of
           None \<Rightarrow> None
         | Some cells \<Rightarrow>
            (if i < length cells then
               (if sz \<le> length (t @ show_int (sint (cells ! i)) @ '', '') + 3
                then Some (ERANGE, t @ show_int (sint (cells ! i)) @ '', '',
                           max b (if sz < length t
                                  then past sz (length (t @ show_int (sint (cells ! i)) @ '', '') + 1)
                                  else 0))
                else save_shape_loop a sz (Suc i) (t @ show_int (sint (cells ! i)) @ '', '')
                       (max b (if sz < length t
                               then past sz (length (t @ show_int (sint (cells ! i)) @ '', '') + 1)
                               else 0)))
             else None))
      else Some (0, t, b))"
  by pat_completeness auto
termination
  by (relation "measure (\<lambda>(a, sz, i, t, b). unat (dim a) - i)") auto

declare save_shape_loop.simps [simp del]

text \<open>The loop \<^verbatim>\<open>while (hdr < hdr_end && ((hdr - hdr_end) % 16)) *hdr++ = ' '\<close>.\<close>

function pad_spaces :: "nat \<Rightarrow> char list \<Rightarrow> char list" where
  "pad_spaces sz t =
     (if length t < sz \<and> (sz - length t) mod 16 \<noteq> 0 then pad_spaces sz (t @ '' '') else t)"
  by pat_completeness auto
termination
  by (relation "measure (\<lambda>(sz, t). sz - length t)") auto

declare pad_spaces.simps [simp del]

text \<open>
  The fixed part of the header text, written by three unbounded \<^verbatim>\<open>sprintf\<close> calls.
\<close>

definition dq :: char where "dq = CHR 0x22"

definition header_fixed :: "npio_Array \<Rightarrow> char list" where
  "header_fixed a =
     magic @ [CHR 0x01, CHR 0x00] @ [CHR 0x00, CHR 0x00]
     @ ''{'' @ [dq] @ ''descr'' @ [dq] @ '': '' @ [dq]
     @ [if little_endian a \<noteq> 0 then CHR ''<'' else CHR ''>'',
        if floating_point a \<noteq> 0 then CHR ''f''
        else if is_signed a \<noteq> 0 then CHR ''i'' else CHR ''u'']
     @ show_int (c_div (bit_width a) 8) @ [dq] @ '', ''
     @ [dq] @ ''fortran_order'' @ [dq] @ '': ''
     @ (if fortran_order a \<noteq> 0 then ''True'' else ''False'') @ '', ''
     @ [dq] @ ''shape'' @ [dq] @ '': (''"

text \<open>
  \<^verbatim>\<open>npio_save_header_mem\<close> on a buffer of \<open>sz\<close> bytes: the return code, on success
  the bytes from the start of the buffer up to \<^verbatim>\<open>*out\<close>, and the number of bytes it has
  stored behind the buffer. The test \<^verbatim>\<open>(hdr - hdr_end) % 16\<close> is on the distance of
  \<^verbatim>\<open>hdr\<close> from the end of the buffer, on either side. The header length
  \<^verbatim>\<open>hdr - hdr_buf - 10\<close> is at least 53; its bytes \<^verbatim>\<open>hdr_len & 0xff\<close> and
  \<^verbatim>\<open>hdr_len >> 8\<close>, stored into a \<^verbatim>\<open>char\<close> each, are the remainder and the quotient by
  256, the latter cut to eight bits by the conversion.
\<close>

definition end_distance :: "nat \<Rightarrow> nat \<Rightarrow> nat" where
  "end_distance sz n = (if n \<le> sz then sz - n else n - sz)"

definition npio_save_header_mem ::
  "size_t \<Rightarrow> npio_Array \<Rightarrow> (int \<times> char list \<times> nat) option" where
  "npio_save_header_mem sz a =
     (if sz < 64 then Some (ERANGE, [], 0)
      else
       (case save_shape_loop a (unat sz) 0 (header_fixed a)
               (past (unat sz) (length (header_fixed a) + 1)) of
          None \<Rightarrow> None
        | Some (err, t, b) \<Rightarrow>
           (if err \<noteq> 0 then Some (err, t, b)
            else if end_distance (unat sz) (length (pad_spaces (unat sz) (t @ '')} ''))) mod 16 \<noteq> 0
            then Some (ERANGE, pad_spaces (unat sz) (t @ '')} ''),
                       max b (past (unat sz) (length (t @ '')} '') + 1)))
            else
              Some (0, (pad_spaces (unat sz) (t @ '')} ''))
                 [length (pad_spaces (unat sz) (t @ '')} '')) - 1 := CHR 0x0A,
                  8 := char_of ((length (pad_spaces (unat sz) (t @ '')} '')) - 10) mod 256),
                  9 := char_of ((length (pad_spaces (unat sz) (t @ '')} '')) - 10) div 256)],
                 max b (past (unat sz) (length (t @ '')} '') + 1))))))"

text \<open>The bytes a \<^verbatim>\<open>write\<close> of \<open>n\<close> bytes from \<open>data\<close> reads; \<open>None\<close> when it cannot.\<close>

definition data_bytes :: "memory \<Rightarrow> data_ptr \<Rightarrow> nat \<Rightarrow> char list option" where
  "data_bytes m d n =
     (case d of
        NullPtr \<Rightarrow> (if n = 0 then Some [] else None)
      | Addr p \<Rightarrow> read_bytes m p n
      | HeapBlock bs \<Rightarrow> (if n \<le> length bs then Some (take n bs) else None))"

text \<open>
  \<^verbatim>\<open>npio_save_fd\<close>. Its buffer of 65536 bytes is an array of its own frame: bytes
  stored behind it overwrite the frame, with no defined behaviour.
\<close>

definition npio_save_fd :: "world \<Rightarrow> memory \<Rightarrow> int \<Rightarrow> npio_Array \<Rightarrow> (int \<times> world) option" where
  "npio_save_fd w m fd a =
     (case npio_save_header_mem 65536 a of
        None \<Rightarrow> None
      | Some (err, hdr, b) \<Rightarrow>
         (if b \<noteq> 0 then None
          else if err \<noteq> 0 then Some (err, w)
          else
           (case sys_write w fd hdr of
              (nw, w1) \<Rightarrow>
               (if nw < int (length hdr) then Some (errno w1, w1)
                else
                 (case npio_array_memsize a of
                    None \<Rightarrow> None
                  | Some sz \<Rightarrow>
                     (if sint sz < 0 then Some (ERANGE, w1)
                      else
                       (case data_bytes m (data a) (unat sz) of
                          None \<Rightarrow> Some (EFAULT, w1\<lparr>errno := EFAULT\<rparr>)
                        | Some payload \<Rightarrow>
                           (case sys_write w1 fd payload of
                              (nw2, w2) \<Rightarrow>
                               (if nw2 \<noteq> sint sz then Some (errno w2, w2)
                                else Some (0, w2))))))))))"

section \<open>The text of a serialised header\<close>

text \<open>
  What the specification says \<^verbatim>\<open>npio_save_header_mem\<close> emits, stated on its own so that
  the code can be compared with it: behind the ten bytes of the prelude the dictionary
  with the keys \<open>descr\<close>, \<open>fortran_order\<close> and \<open>shape\<close>, every dimension of the
  shape followed by a comma and a space.
\<close>

definition shape_cells :: "npio_Array \<Rightarrow> size_t list" where
  "shape_cells a = (case shape a of None \<Rightarrow> [] | Some cells \<Rightarrow> cells)"

definition dims_text :: "size_t list \<Rightarrow> char list" where
  "dims_text ds = concat (map (\<lambda>d. show_int (sint d) @ '', '') ds)"

definition dict_text :: "npio_Array \<Rightarrow> char list" where
  "dict_text a =
     drop 10 (header_fixed a) @ dims_text (take (unat (dim a)) (shape_cells a)) @ '')}''"

text \<open>The character of the saved header that tags the byte order, behind \<open>{"descr": "\<close>.\<close>

definition endian_tag :: "char list \<Rightarrow> char" where
  "endian_tag hdr = hdr ! 21"


section \<open>Concrete platforms and inputs\<close>

text \<open>
  Two platforms that differ in the signedness of \<^verbatim>\<open>char\<close> only: x86-64 Linux, where
  plain \<^verbatim>\<open>char\<close> is signed, and AArch64 Linux, where it is unsigned. Both are
  little-endian; the contents of fresh memory stay a parameter.
\<close>

definition x86_64 :: "(nat \<Rightarrow> size_t) \<Rightarrow> (nat \<Rightarrow> char) \<Rightarrow> platform" where
  "x86_64 js jb =
     \<lparr>char_signed = True, host_little_endian = True, uninit_size = js, uninit_byte = jb\<rparr>"

definition aarch64 :: "(nat \<Rightarrow> size_t) \<Rightarrow> (nat \<Rightarrow> char) \<Rightarrow> platform" where
  "aarch64 js jb =
     \<lparr>char_signed = False, host_little_endian = True, uninit_size = js, uninit_byte = jb\<rparr>"

text \<open>The storage of a descriptor before \<^verbatim>\<open>npio_init_array\<close> has run on it.\<close>

definition blank_array :: npio_Array where
  "blank_array =
     \<lparr>major_version = CHR 0x00, minor_version = CHR 0x00, header_len = 0, dtype = None,
      dim = 0, shape = None, size_field = 0, fortran_order = 0, little_endian = 0,
      floating_point = 0, is_signed = 0, bit_width = 0, data = NullPtr, priv_fd = 0,
      priv_buf = 0, priv_buf_size = 0, priv_hdr_buf = None, priv_shape_capacity = 0,
      priv_mmapped = 0, priv_malloced = 0, priv_opened = 0\<rparr>"

text \<open>
  A version 1 header of 112 bytes whose shape has 33 dimensions, written
  without optional spaces so that its length field stays below 128.
\<close>

definition header_33_dims :: "char list" where
  "header_33_dims =
     magic @ [CHR 0x01, CHR 0x00, CHR 0x66, CHR 0x00]
     @ ''{'descr':'<f4','shape':(''
     @ ''3,1,4,1,5,9,2,6,5,3,5,8,9,7,9,3,2,3,8,4,6,2,6,4,3,3,8,3,2,7,9,5,1,''
     @ '')}         '' @ [CHR 0x0A]"

text \<open>
  The file of the specification's concrete scenario: a version 1 prelude, the dictionary
  of a little-endian 32-bit float array of shape \<open>(2, 3)\<close> padded to 80 bytes, and a
  payload of 24 bytes.
\<close>

definition header_2x3 :: "char list" where
  "header_2x3 =
     magic @ [CHR 0x01, CHR 0x00, CHR 0x46, CHR 0x00]
     @ ''{'descr': '<f4', 'fortran_order': False, 'shape': (2, 3), }''
     @ ''          '' @ [CHR 0x0A]"

definition payload_24 :: "char list" where
  "payload_24 = ''abcdefghijklmnopqrstuvwx''"

text \<open>
  A process whose only open descriptor is 0, a stream that still delivers \<open>bs\<close>, and
  in which no call has failed yet.
\<close>

definition stdin_world :: "char list \<Rightarrow> world" where
  "stdin_world bs =
     \<lparr>fds = (\<lambda>fd. if fd = 0
                  then Some \<lparr>contents = bs, pos = 0, seekable = False, map_addr = None,
                              written = [], room = 0\<rparr>
                  else None),
      errno = 0\<rparr>"

text \<open>
  A descriptor as the mapped path leaves it for a header of 118 bytes that declares a
  \<open>10 \<times> 10\<close> array of 32-bit elements, over a mapping of \<open>bsz\<close> bytes.
\<close>

definition mapped_10x10 :: "size_t \<Rightarrow> npio_Array" where
  "mapped_10x10 bsz =
     blank_array\<lparr>major_version := CHR 0x01, header_len := 118, dtype := Some ''<f4'',
       dim := 2, shape := Some [10, 10, 0, 0, 0, 0, 0, 0], size_field := 100,
       little_endian := 1, floating_point := 1, is_signed := 1, bit_width := 32,
       priv_buf := 64, priv_buf_size := bsz, priv_shape_capacity := 8, priv_mmapped := 1\<rparr>"

text \<open>
  The x86-64 platform whose fresh memory holds zeros, the descriptor
  \<^verbatim>\<open>npio_init_array\<close> leaves on it, and two descriptors a caller made from that one: one
  whose \<open>little_endian\<close> field is cleared, one whose data are the four bytes of a scalar.
\<close>

definition linux_x86_64 :: platform where
  "linux_x86_64 = x86_64 (\<lambda>i. 0) (\<lambda>i. CHR 0x00)"

definition default_array :: npio_Array where
  "default_array = npio_init_array linux_x86_64 blank_array"

definition big_endian_tagged :: npio_Array where
  "big_endian_tagged = default_array\<lparr>little_endian := 0\<rparr>"

definition scalar_abcd :: npio_Array where
  "scalar_abcd = default_array\<lparr>data := HeapBlock ''abcd''\<rparr>"

text \<open>
  A process whose only open descriptor is \<open>fd\<close>, a file of the bytes \<open>bs\<close> that is
  seekable and mapped at \<open>addr\<close> when that is given, and that takes \<open>rm\<close> written
  bytes; and the memory in which nothing is mapped.
\<close>

definition file_world :: "int \<Rightarrow> char list \<Rightarrow> nat option \<Rightarrow> nat \<Rightarrow> world" where
  "file_world fd bs addr rm =
     \<lparr>fds = (\<lambda>d. if d = fd
                 then Some \<lparr>contents = bs, pos = 0, seekable = (addr \<noteq> None), map_addr = addr,
                             written = [], room = rm\<rparr>
                 else None),
      errno = 0\<rparr>"

definition no_memory :: memory where
  "no_memory = (\<lambda>p. None)"


section \<open>The claims\<close>

text \<open>
  Claim C3 (the length field of the prelude). For a version 1 file the header length is
  meant to be the unsigned little-endian value of the two bytes behind the version,
  \<open>byte0 + 256 * byte1\<close>, also for bytes with the high bit set. The code reads the bytes
  through a \<^verbatim>\<open>char\<close> pointer: on the platform with unsigned \<^verbatim>\<open>char\<close> the bytes
  \<open>0x80 0x00\<close> give 128, on the platform with signed \<^verbatim>\<open>char\<close> the first byte is
  sign-extended and the header length becomes \<open>2^64 - 128\<close>.
\<close>

theorem prelude_header_len_sign_extended:
  "map_option (\<lambda>(rc, a', e). (rc, header_len a', e))
     (npio_load_header_prelude (x86_64 js jb)
        (region 0 (magic @ [CHR 0x01, CHR 0x00, CHR 0x80, CHR 0x00])) 0 a)
   = Some (0, 0xFFFFFFFFFFFFFF80, 10)
   \<and> map_option (\<lambda>(rc, a', e). (rc, header_len a', e))
     (npio_load_header_prelude (aarch64 js jb)
        (region 0 (magic @ [CHR 0x01, CHR 0x00, CHR 0x80, CHR 0x00])) 0 a)
   = Some (0, 128, 10)"
proof (rule conjI)
  show "map_option (\<lambda>(rc, a', e). (rc, header_len a', e))
     (npio_load_header_prelude (x86_64 js jb)
        (region 0 (magic @ [CHR 0x01, CHR 0x00, CHR 0x80, CHR 0x00])) 0 a)
   = Some (0, 0xFFFFFFFFFFFFFF80, 10)"
    by (code_simp; simp)
  show "map_option (\<lambda>(rc, a', e). (rc, header_len a', e))
     (npio_load_header_prelude (aarch64 js jb)
        (region 0 (magic @ [CHR 0x01, CHR 0x00, CHR 0x80, CHR 0x00])) 0 a)
   = Some (0, 128, 10)"
    by (code_simp; simp)
qed

text \<open>
  Claim C4 (malformed tuples are rejected). The text \<open>(1,,2)\<close> is not a tuple of the
  grammar, and the parser is meant to fail on it. \<^verbatim>\<open>npio_ph_parse_shape_\<close> accepts an
  empty integer before every comma, not only before the closing parenthesis: on
  \<open>(1,,2)\<close> it returns 0 with the shape \<open>[1, 2]\<close>, having read all six characters.
\<close>

theorem parse_shape_accepts_double_comma:
  "map_option (\<lambda>(rc, a', p). (rc, dim a', map_option (take 2) (shape a'), p))
     (npio_ph_parse_shape (x86_64 js jb) (region 0 ''(1,,2)'')
        (npio_init_array (x86_64 js jb) blank_array) 0 6)
   = Some (0, 2, Some [1, 2], 6)"
  by (code_simp; simp)

text \<open>
  Claim C5 (a repeated key replaces the earlier value). For a dictionary with two
  \<open>shape\<close> entries the descriptor is meant to hold the second tuple alone.
  \<^verbatim>\<open>npio_ph_parse_shape_\<close> allocates a new block for the second tuple and resets the
  capacity, but not \<open>dim\<close>: the second tuple is appended behind the position the first
  one reached. For \<open>(7,)\<close> followed by \<open>(2,)\<close> the result has \<open>dim = 2\<close>, its first
  cell is the uninitialised cell 0 of the new block, and \<open>size\<close> is computed from it.
\<close>

theorem parse_dict_second_shape_appends:
  "map_option (\<lambda>(rc, a'). (rc, dim a', map_option (take 2) (shape a'), size_field a'))
     (npio_ph_parse_dict (x86_64 js jb)
        (region 0 ''{'shape': (7,), 'shape': (2,), 'descr': '<f4', }  '')
        (npio_init_array (x86_64 js jb) blank_array) 0 48)
   = Some (0, 2, Some [js 0, 2], js 0 * 2)"
  by (code_simp; simp add: mod_mult_left_eq)

text \<open>
  Claim C10 (the in-memory path ignores \<open>max_dim\<close>). \<^verbatim>\<open>npio_load_header_mem4\<close> and
  \<^verbatim>\<open>npio_load_mem4\<close> give the same result for any two values of \<open>max_dim\<close>, and a
  header that declares 33 dimensions is accepted with the default \<open>max_dim\<close> of 32.
\<close>

theorem mem4_ignores_max_dim:
  "npio_load_header_mem4 pf m p sz a d1 = npio_load_header_mem4 pf m p sz a d2
   \<and> npio_load_mem4 pf w m p sz a d1 = npio_load_mem4 pf w m p sz a d2
   \<and> map_option (\<lambda>(rc, a'). (rc, dim a'))
        (npio_load_header_mem4 (x86_64 js jb) (region 64 header_33_dims) 64 112
           (npio_init_array (x86_64 js jb) blank_array) NPIO_DEFAULT_MAX_DIM)
      = Some (0, 33)"
proof (intro conjI)
  show "npio_load_header_mem4 pf m p sz a d1 = npio_load_header_mem4 pf m p sz a d2"
    by (simp add: npio_load_header_mem4_def)
  then show "npio_load_mem4 pf w m p sz a d1 = npio_load_mem4 pf w m p sz a d2"
    by (simp add: npio_load_mem4_def)
  show "map_option (\<lambda>(rc, a'). (rc, dim a'))
        (npio_load_header_mem4 (x86_64 js jb) (region 64 header_33_dims) 64 112
           (npio_init_array (x86_64 js jb) blank_array) NPIO_DEFAULT_MAX_DIM)
      = Some (0, 33)"
    by (code_simp; simp)
qed

text \<open>
  Claim C6 (the size check of the mapped path). For a descriptor with \<open>_mmapped\<close> set,
  \<^verbatim>\<open>npio_load_data2\<close> compares \<open>data_offset + memsize\<close> with the size of the mapping,
  in \<^verbatim>\<open>size_t\<close> arithmetic as the code computes both. When they differ, in either
  direction, it returns \<open>EINVAL\<close> and leaves the descriptor, the data pointer included,
  as it was; when it returns 0 the two are equal and the offset is a multiple of 16.
\<close>

theorem mapped_size_check:
  assumes "priv_mmapped a \<noteq> 0"
  shows "(\<forall>msz. npio_array_memsize a = Some msz \<and> data_offset a + msz \<noteq> priv_buf_size a
            \<longrightarrow> npio_load_data2 pf w m a sb = Some (EINVAL, a, m, w))
       \<and> (\<forall>a' m' w'. npio_load_data2 pf w m a sb = Some (0, a', m', w')
            \<longrightarrow> data_offset a mod 16 = 0
              \<and> (\<exists>msz. npio_array_memsize a = Some msz \<and> data_offset a + msz = priv_buf_size a))"
  using assms
  by (auto simp: npio_load_data2_def swap_if_needed_def EINVAL_def ENOTSUP_def swap_data_def
      npio_swap_bytes_def split: option.splits if_splits prod.splits)

text \<open>
  The witness: the payload of the \<open>10 \<times> 10\<close> array takes 400 bytes behind the offset
  128, and a mapping of 527 bytes is one byte short.
\<close>

theorem mapped_size_check_witness:
  "priv_mmapped (mapped_10x10 527) \<noteq> 0
   \<and> npio_array_memsize (mapped_10x10 527) = Some 400
   \<and> data_offset (mapped_10x10 527) + 400 \<noteq> priv_buf_size (mapped_10x10 527)
   \<and> npio_load_data2 (x86_64 (\<lambda>i. 0) (\<lambda>i. CHR 0x00)) (stdin_world []) (\<lambda>p. None)
         (mapped_10x10 527) 1
       = Some (EINVAL, mapped_10x10 527, (\<lambda>p. None), stdin_world [])"
proof -
  have 1: "priv_mmapped (mapped_10x10 527) \<noteq> 0" by code_simp
  have 2: "npio_array_memsize (mapped_10x10 527) = Some 400" by code_simp
  have 3: "data_offset (mapped_10x10 527) + 400 \<noteq> priv_buf_size (mapped_10x10 527)"
    by code_simp
  from mapped_size_check
         [OF 1, of "x86_64 (\<lambda>i. 0) (\<lambda>i. CHR 0x00)" "stdin_world []" "\<lambda>p. None" 1] 2 3
  show ?thesis using 1 by blast
qed

text \<open>
  Claim C7 (a short read is an error on the buffered path). When the reads deliver fewer
  bytes than the payload needs, \<^verbatim>\<open>npio_load_data2\<close> is meant to return a nonzero code.
  It returns \<open>errno\<close>, which a read that delivers too few bytes does not assign. The
  file of the \<open>(2, 3)\<close> array is loaded from memory with \<^verbatim>\<open>npio_load_mem4\<close>, which
  leaves \<open>_mmapped\<close> and \<open>_fd\<close> at 0; descriptor 0 delivers 10 of the 24 bytes and
  no call has failed before: the result is 0, with a payload block whose last 14 bytes
  are uninitialised.
\<close>

theorem short_read_returns_success:
  "map_option (\<lambda>(rc, a', m', w'). (rc, data a'))
     (npio_load_mem4 (x86_64 js jb) (stdin_world ''0123456789'')
        (region 64 (header_2x3 @ payload_24)) 64 104
        (npio_init_array (x86_64 js jb) blank_array) NPIO_DEFAULT_MAX_DIM)
   = Some (0, HeapBlock (''0123456789'' @ map jb [10..<24]))"
  by (code_simp; simp)

end
